theory Spec2Isabelle
  imports Main "HOL-Library.Char_ord" "HOL-Library.List_Lexorder" "HOL-Library.Option_ord"
    "HOL-Library.Multiset"
begin

section \<open>Field values, model instances and querysets\<close>

text \<open>
  The views of \<^verbatim>\<open>app/recipe/views.py\<close> and \<^verbatim>\<open>app/user/views.py\<close> address the
  models only through field names: \<^verbatim>\<open>filter(user=...)\<close>, \<^verbatim>\<open>order_by("-name")\<close>,
  \<^verbatim>\<open>order_by("-id")\<close>, \<^verbatim>\<open>serializer.save(user=...)\<close>. A model instance is therefore a
  Python-style dictionary from field names to values; the primary key is the field
  \<^verbatim>\<open>id\<close> and the owner foreign key is the field \<^verbatim>\<open>user\<close>, holding the owner's id.
\<close>

datatype val = Num int | Str string

instantiation val :: linorder
begin

fun less_eq_val :: "val \<Rightarrow> val \<Rightarrow> bool" where
  "less_eq_val (Num a) (Num b) = (a \<le> b)"
| "less_eq_val (Num a) (Str t) = True"
| "less_eq_val (Str s) (Num b) = False"
| "less_eq_val (Str s) (Str t) = (s \<le> t)"

definition less_val :: "val \<Rightarrow> val \<Rightarrow> bool" where
  "less_val x y = (x \<le> y \<and> \<not> y \<le> x)"

instance
proof
  fix x y z :: val
  show "(x < y) = (x \<le> y \<and> \<not> y \<le> x)"
    by (simp add: less_val_def)
  show "x \<le> x"
    by (cases x) simp_all
  show "x \<le> y \<Longrightarrow> y \<le> z \<Longrightarrow> x \<le> z"
    by (cases x; cases y; cases z) auto
  show "x \<le> y \<Longrightarrow> y \<le> x \<Longrightarrow> x = y"
    by (cases x; cases y) auto
  show "x \<le> y \<or> y \<le> x"
    by (cases x; cases y) auto
qed

end

type_synonym dict = "string \<rightharpoonup> val"
type_synonym row = dict
type_synonym queryset = "row list"

definition filter_eq :: "string \<Rightarrow> val \<Rightarrow> queryset \<Rightarrow> queryset" where
  \<comment> \<open>\<^verbatim>\<open>QuerySet.filter(field=value)\<close>: the rows whose field equals the value.\<close>
  "filter_eq field v qs = filter (\<lambda>r. r field = Some v) qs"

definition order_by :: "string \<Rightarrow> queryset \<Rightarrow> queryset" where
  \<comment> \<open>\<^verbatim>\<open>QuerySet.order_by(spec)\<close>: a leading minus sign asks for descending order. Rows
      that tie on the column come in an order the database chooses; the model takes
      the stable one, and no theorem below depends on it.\<close>
  "order_by spec qs =
     (case spec of
        c # field \<Rightarrow>
          (if c = CHR ''-'' then rev (sort_key (\<lambda>r. r field) qs)
           else sort_key (\<lambda>r. r spec) qs)
      | [] \<Rightarrow> qs)"


section \<open>Accounts, credentials and the database\<close>

text \<open>
  The user model lives in \<^verbatim>\<open>core.models\<close>, which is not among the sources. An account
  has a primary key, the \<^verbatim>\<open>is_active\<close> flag the authenticators read, and its
  remaining fields (email, name, password) as a dictionary.
\<close>

record account =
  uid :: int
  is_active :: bool
  profile :: dict

datatype model = Recipe | Tag | Ingredient

record database =
  accounts :: "account list"
  tokens :: "string \<rightharpoonup> int"
  recipes :: queryset
  tags :: queryset
  ingredients :: queryset

fun objects_all :: "model \<Rightarrow> database \<Rightarrow> queryset" where
  \<comment> \<open>\<^verbatim>\<open>Model.objects.all()\<close>: the rows in the order the database returns them when no
      ordering is asked for.\<close>
  "objects_all Recipe db = recipes db"
| "objects_all Tag db = tags db"
| "objects_all Ingredient db = ingredients db"

fun write_table :: "model \<Rightarrow> queryset \<Rightarrow> database \<Rightarrow> database" where
  "write_table Recipe qs db = db\<lparr>recipes := qs\<rparr>"
| "write_table Tag qs db = db\<lparr>tags := qs\<rparr>"
| "write_table Ingredient qs db = db\<lparr>ingredients := qs\<rparr>"

fun max_id :: "queryset \<Rightarrow> int" where
  "max_id [] = 0"
| "max_id (r # rs) = max (case r ''id'' of Some (Num n) \<Rightarrow> n | _ \<Rightarrow> 0) (max_id rs)"

datatype http_method = GET | HEAD | POST | PUT | PATCH | DELETE | OPTIONS | TRACE

text \<open>
  The \<^verbatim>\<open>Authorization\<close> header after \<^verbatim>\<open>split()\<close>: the keyword, which the
  authenticators compare case-insensitively, and the words that follow it.
\<close>

datatype authorization =
    NoHeader
  | TokenHeader "string list"
  | BasicHeader "string list"
  | OtherHeader

record request =
  http_method :: http_method
  authorization :: authorization
  session_user :: "int option"
  csrf_ok :: bool
  data :: dict

datatype authenticator = TokenAuthentication | SessionAuthentication | BasicAuthentication

datatype permission = AllowAny | IsAuthenticated

datatype api_exception =
    NotAuthenticated
  | AuthenticationFailed
  | PermissionDenied
  | Http404
  | MethodNotAllowed
  | ValidationError
  | ServerError

datatype serializer_class =
    RecipeSerializer
  | RecipeDetailSerializer
  | TagSerializer
  | IngredientSerializer
  | UserSerializer

text \<open>
  What the sources do not show is a parameter: the framework settings that a view
  falls back to when its class does not set an attribute, the password check behind
  basic authentication, and the validation of each serializer of
  \<^verbatim>\<open>recipe/serializers.py\<close> and \<^verbatim>\<open>user/serializers.py\<close> (\<open>is_valid cls partial data\<close> is
  the validated data, or \<open>None\<close> when validation fails).
\<close>

record env =
  default_authentication_classes :: "authenticator list"
  default_permission_classes :: "permission list"
  check_credentials :: "database \<Rightarrow> string \<Rightarrow> account option"
  is_valid :: "serializer_class \<Rightarrow> bool \<Rightarrow> dict \<Rightarrow> dict option"

definition get_user :: "database \<Rightarrow> int \<Rightarrow> account option" where
  "get_user db u = find (\<lambda>a. uid a = u) (accounts db)"

fun authenticate :: "env \<Rightarrow> database \<Rightarrow> request \<Rightarrow> authenticator \<Rightarrow> api_exception + account option" where
  \<comment> \<open>\<^verbatim>\<open>authenticate(request)\<close> of each authentication class: \<open>Inr None\<close> when the class
      does not apply to the request, \<open>Inl\<close> when it raises, the user otherwise.\<close>
  "authenticate e db req TokenAuthentication =
     (case authorization req of
        TokenHeader ws \<Rightarrow>
          (case ws of
             [key] \<Rightarrow>
               (case tokens db key of
                  None \<Rightarrow> Inl AuthenticationFailed
                | Some u \<Rightarrow>
                    (case get_user db u of
                       None \<Rightarrow> Inl AuthenticationFailed
                     | Some a \<Rightarrow> if is_active a then Inr (Some a) else Inl AuthenticationFailed))
           | _ \<Rightarrow> Inl AuthenticationFailed)
      | _ \<Rightarrow> Inr None)"
| "authenticate e db req SessionAuthentication =
     (case session_user req of
        None \<Rightarrow> Inr None
      | Some u \<Rightarrow>
          (case get_user db u of
             None \<Rightarrow> Inr None
           | Some a \<Rightarrow>
               if \<not> is_active a then Inr None
               else if csrf_ok req then Inr (Some a)
               else Inl PermissionDenied))"
| "authenticate e db req BasicAuthentication =
     (case authorization req of
        BasicHeader ws \<Rightarrow>
          (case ws of
             [credentials] \<Rightarrow>
               (case check_credentials e db credentials of
                  None \<Rightarrow> Inl AuthenticationFailed
                | Some a \<Rightarrow> if is_active a then Inr (Some a) else Inl AuthenticationFailed)
           | _ \<Rightarrow> Inl AuthenticationFailed)
      | _ \<Rightarrow> Inr None)"

fun perform_authentication ::
  "env \<Rightarrow> database \<Rightarrow> request \<Rightarrow> authenticator list \<Rightarrow> api_exception + account option" where
  \<comment> \<open>\<^verbatim>\<open>Request._authenticate\<close>: the first authenticator that returns a user decides;
      \<open>Inr None\<close> is the anonymous user.\<close>
  "perform_authentication e db req [] = Inr None"
| "perform_authentication e db req (a # as) =
     (case authenticate e db req a of
        Inl ex \<Rightarrow> Inl ex
      | Inr (Some u) \<Rightarrow> Inr (Some u)
      | Inr None \<Rightarrow> perform_authentication e db req as)"

fun has_permission :: "permission \<Rightarrow> account option \<Rightarrow> bool" where
  "has_permission AllowAny user = True"
| "has_permission IsAuthenticated user = (user \<noteq> None)"

fun authenticate_header :: "authenticator \<Rightarrow> string option" where
  "authenticate_header TokenAuthentication = Some ''Token''"
| "authenticate_header SessionAuthentication = None"
| "authenticate_header BasicAuthentication = Some ''Basic realm=api''"

definition get_authenticate_header :: "authenticator list \<Rightarrow> string option" where
  "get_authenticate_header authenticators =
     (case authenticators of [] \<Rightarrow> None | a # _ \<Rightarrow> authenticate_header a)"

definition status_code :: "authenticator list \<Rightarrow> api_exception \<Rightarrow> nat" where
  \<comment> \<open>\<^verbatim>\<open>APIView.handle_exception\<close>: an authentication error is a 401 only when the
      first authenticator supplies a \<^verbatim>\<open>WWW-Authenticate\<close> header, and a 403 otherwise.\<close>
  "status_code authenticators ex =
     (case ex of
        NotAuthenticated \<Rightarrow> (if get_authenticate_header authenticators \<noteq> None then 401 else 403)
      | AuthenticationFailed \<Rightarrow> (if get_authenticate_header authenticators \<noteq> None then 401 else 403)
      | PermissionDenied \<Rightarrow> 403
      | Http404 \<Rightarrow> 404
      | MethodNotAllowed \<Rightarrow> 405
      | ValidationError \<Rightarrow> 400
      | ServerError \<Rightarrow> 500)"

section \<open>View classes\<close>

text \<open>
  A view class is its list of base classes and its class body: the attributes and
  methods it assigns, by name. The framework reads an attribute by its own name for it
  and falls back to the inherited default when the class body has no entry of that name.
  A method that reads \<^verbatim>\<open>self.request.user\<close> is a function of the authenticated account;
  \<^verbatim>\<open>perform_create\<close> is the keyword arguments it hands to \<^verbatim>\<open>serializer.save\<close>.
\<close>

datatype action = A_list | A_create | A_retrieve | A_update | A_partial_update | A_destroy

datatype base =
    ModelViewSet
  | GenericViewSet
  | CreateModelMixin
  | RetrieveModelMixin
  | UpdateModelMixin
  | DestroyModelMixin
  | ListModelMixin
  | RetrieveUpdateAPIView

datatype attr =
    Authenticators "authenticator list"
  | Permissions "permission list"
  | Serializer serializer_class
  | Objects model
  | QuerysetMethod "queryset \<Rightarrow> account \<Rightarrow> queryset"
  | SerializerClassMethod "action option \<Rightarrow> serializer_class option \<Rightarrow> serializer_class option"
  | SaveMethod "account \<Rightarrow> dict"
  | ObjectMethod "account \<Rightarrow> account"

record view_class =
  bases :: "base list"
  body :: "(string \<times> attr) list"

definition RecipeViewSet :: view_class where
  "RecipeViewSet =
     \<lparr>bases = [ModelViewSet],
      body =
        [(''serializer_class'', Serializer RecipeSerializer),
         (''queryset'', Objects Recipe),
         (''authentication_classes'', Authenticators [TokenAuthentication]),
         (''permission_classes'', Permissions [IsAuthenticated]),
         (''get_queryset'', QuerysetMethod (\<lambda>queryset user.
            order_by ''-id'' (filter_eq ''user'' (Num (uid user)) queryset))),
         (''get_serializer_class'', SerializerClassMethod (\<lambda>action serializer_class.
            if action = Some A_list then Some RecipeSerializer
            else if action \<in> set [Some A_retrieve, Some A_update, Some A_partial_update]
              then Some RecipeDetailSerializer
            else serializer_class)),
         (''perform_create'', SaveMethod (\<lambda>user. [''user'' \<mapsto> Num (uid user)]))]\<rparr>"

definition TagViewSet :: view_class where
  "TagViewSet =
     \<lparr>bases = [UpdateModelMixin, DestroyModelMixin, ListModelMixin, GenericViewSet],
      body =
        [(''serializer_class'', Serializer TagSerializer),
         (''queryset'', Objects Tag),
         (''authentication_class'', Authenticators [TokenAuthentication]),
         (''permission_classes'', Permissions [IsAuthenticated]),
         (''get_queryset'', QuerysetMethod (\<lambda>queryset user.
            order_by ''-name'' (filter_eq ''user'' (Num (uid user)) queryset)))]\<rparr>"

definition IngredientViewSet :: view_class where
  "IngredientViewSet =
     \<lparr>bases = [ListModelMixin, UpdateModelMixin, DestroyModelMixin, GenericViewSet],
      body =
        [(''serializer_class'', Serializer IngredientSerializer),
         (''queryset'', Objects Ingredient),
         (''authentication_classes'', Authenticators [TokenAuthentication]),
         (''permission_classes'', Permissions [IsAuthenticated]),
         (''get_query'', QuerysetMethod (\<lambda>queryset user.
            order_by ''-name'' (filter_eq ''user'' (Num (uid user)) queryset)))]\<rparr>"

definition ManageUserView :: view_class where
  "ManageUserView =
     \<lparr>bases = [RetrieveUpdateAPIView],
      body =
        [(''serializer_class'', Serializer UserSerializer),
         (''authentication_classes'', Authenticators [TokenAuthentication]),
         (''permission_classes'', Permissions [IsAuthenticated]),
         (''get_object'', ObjectMethod (\<lambda>user. user))]\<rparr>"

section \<open>The framework: attribute lookup, routing and dispatch\<close>

text \<open>
  The repository's own code is the four class bodies above; what happens to a request is
  decided by the framework classes they inherit from. The definitions of this section
  follow \<^verbatim>\<open>rest_framework\<close>: \<^verbatim>\<open>APIView.dispatch\<close>, \<^verbatim>\<open>initial\<close>, \<^verbatim>\<open>permission_denied\<close> and
  \<^verbatim>\<open>handle_exception\<close>, the authentication classes, \<^verbatim>\<open>SimpleRouter\<close> and
  \<^verbatim>\<open>ViewSetMixin.as_view\<close>, \<^verbatim>\<open>GenericAPIView\<close> and the model mixins. Pagination and filter
  backends are off, as they are unless the settings turn them on. The token table is
  what the token endpoint (\<^verbatim>\<open>CreateTokenView\<close>) writes: one key per user.
\<close>

definition get_authenticators :: "env \<Rightarrow> view_class \<Rightarrow> authenticator list" where
  \<comment> \<open>\<^verbatim>\<open>APIView.get_authenticators\<close> reads \<^verbatim>\<open>self.authentication_classes\<close>, whose inherited
      value is the setting \<^verbatim>\<open>DEFAULT_AUTHENTICATION_CLASSES\<close>.\<close>
  "get_authenticators e cls =
     (case map_of (body cls) ''authentication_classes'' of
        Some (Authenticators as) \<Rightarrow> as
      | _ \<Rightarrow> default_authentication_classes e)"

definition get_permissions :: "env \<Rightarrow> view_class \<Rightarrow> permission list" where
  "get_permissions e cls =
     (case map_of (body cls) ''permission_classes'' of
        Some (Permissions ps) \<Rightarrow> ps
      | _ \<Rightarrow> default_permission_classes e)"

definition initial :: "env \<Rightarrow> view_class \<Rightarrow> database \<Rightarrow> request \<Rightarrow> api_exception + account option" where
  \<comment> \<open>\<^verbatim>\<open>APIView.initial\<close>: authenticate, then check every permission;
      \<^verbatim>\<open>permission_denied\<close> raises \<^verbatim>\<open>NotAuthenticated\<close> when there are authenticators and
      none succeeded. The result is \<^verbatim>\<open>request.user\<close>, \<open>None\<close> for the anonymous user.\<close>
  "initial e cls db req =
     (case perform_authentication e db req (get_authenticators e cls) of
        Inl ex \<Rightarrow> Inl ex
      | Inr user \<Rightarrow>
          if list_all (\<lambda>p. has_permission p user) (get_permissions e cls) then Inr user
          else if get_authenticators e cls \<noteq> [] \<and> user = None then Inl NotAuthenticated
          else Inl PermissionDenied)"

fun provides :: "base \<Rightarrow> action list" where
  "provides ModelViewSet = [A_create, A_retrieve, A_update, A_partial_update, A_destroy, A_list]"
| "provides GenericViewSet = []"
| "provides CreateModelMixin = [A_create]"
| "provides RetrieveModelMixin = [A_retrieve]"
| "provides UpdateModelMixin = [A_update, A_partial_update]"
| "provides DestroyModelMixin = [A_destroy]"
| "provides ListModelMixin = [A_list]"
| "provides RetrieveUpdateAPIView = []"

definition has_action :: "view_class \<Rightarrow> action \<Rightarrow> bool" where
  \<comment> \<open>\<^verbatim>\<open>hasattr(viewset, action)\<close>\<close>
  "has_action cls a = list_ex (\<lambda>b. a \<in> set (provides b)) (bases cls)"

datatype route = ListRoute | DetailRoute int

fun route_mapping :: "route \<Rightarrow> (http_method \<times> action) list" where
  \<comment> \<open>the two routes \<^verbatim>\<open>DefaultRouter().register(prefix, viewset)\<close> generates:
      \<^verbatim>\<open>prefix/\<close> and \<^verbatim>\<open>prefix/{pk}/\<close>\<close>
  "route_mapping ListRoute = [(GET, A_list), (POST, A_create)]"
| "route_mapping (DetailRoute pk) =
     [(GET, A_retrieve), (PUT, A_update), (PATCH, A_partial_update), (DELETE, A_destroy)]"

definition get_method_map :: "view_class \<Rightarrow> route \<Rightarrow> (http_method \<times> action) list" where
  "get_method_map cls rt = filter (\<lambda>(m, a). has_action cls a) (route_mapping rt)"

definition action_map :: "view_class \<Rightarrow> route \<Rightarrow> http_method \<rightharpoonup> action" where
  \<comment> \<open>\<^verbatim>\<open>ViewSetMixin.as_view\<close>: \<^verbatim>\<open>HEAD\<close> is bound to the action of \<^verbatim>\<open>GET\<close>.\<close>
  "action_map cls rt = (let actions = map_of (get_method_map cls rt) in actions(HEAD := actions GET))"

definition get_queryset :: "view_class \<Rightarrow> database \<Rightarrow> account option \<Rightarrow> api_exception + queryset" where
  \<comment> \<open>The framework calls the method named \<^verbatim>\<open>get_queryset\<close>; the one inherited from
      \<^verbatim>\<open>GenericAPIView\<close> returns \<^verbatim>\<open>self.queryset.all()\<close>. Filtering on the anonymous user
      raises inside the ORM.\<close>
  "get_queryset cls db user =
     (case map_of (body cls) ''queryset'' of
        Some (Objects m) \<Rightarrow>
          (case map_of (body cls) ''get_queryset'' of
             Some (QuerysetMethod f) \<Rightarrow>
               (case user of None \<Rightarrow> Inl ServerError | Some u \<Rightarrow> Inr (f (objects_all m db) u))
           | _ \<Rightarrow> Inr (objects_all m db))
      | _ \<Rightarrow> Inl ServerError)"

definition get_object :: "view_class \<Rightarrow> database \<Rightarrow> account option \<Rightarrow> int \<Rightarrow> api_exception + row" where
  \<comment> \<open>\<^verbatim>\<open>GenericAPIView.get_object\<close>: \<^verbatim>\<open>get_object_or_404(self.get_queryset(), pk=pk)\<close>\<close>
  "get_object cls db user pk =
     (case get_queryset cls db user of
        Inl ex \<Rightarrow> Inl ex
      | Inr qs \<Rightarrow>
          (case find (\<lambda>r. r ''id'' = Some (Num pk)) qs of
             None \<Rightarrow> Inl Http404
           | Some obj \<Rightarrow> Inr obj))"

definition get_serializer_class :: "view_class \<Rightarrow> action option \<Rightarrow> serializer_class option" where
  "get_serializer_class cls act =
     (let serializer_class =
        (case map_of (body cls) ''serializer_class'' of Some (Serializer s) \<Rightarrow> Some s | _ \<Rightarrow> None)
      in case map_of (body cls) ''get_serializer_class'' of
           Some (SerializerClassMethod f) \<Rightarrow> f act serializer_class
         | _ \<Rightarrow> serializer_class)"

definition perform_create :: "view_class \<Rightarrow> account option \<Rightarrow> api_exception + dict" where
  \<comment> \<open>the keyword arguments of the \<^verbatim>\<open>serializer.save\<close> call in \<^verbatim>\<open>perform_create\<close>;
      \<^verbatim>\<open>CreateModelMixin.perform_create\<close> passes none\<close>
  "perform_create cls user =
     (case map_of (body cls) ''perform_create'' of
        Some (SaveMethod f) \<Rightarrow> (case user of None \<Rightarrow> Inl ServerError | Some u \<Rightarrow> Inr (f u))
      | _ \<Rightarrow> Inr Map.empty)"

datatype content =
    Many serializer_class "row list"
  | One serializer_class row
  | Account serializer_class account
  | Metadata
  | Detail api_exception
  | NoContent

record response =
  status :: nat
  content :: content

definition save_row :: "row \<Rightarrow> queryset \<Rightarrow> queryset" where
  \<comment> \<open>\<^verbatim>\<open>instance.save()\<close> of an existing row: an UPDATE by primary key\<close>
  "save_row obj qs = map (\<lambda>r. if r ''id'' = obj ''id'' then obj else r) qs"

definition delete_row :: "row \<Rightarrow> queryset \<Rightarrow> queryset" where
  "delete_row obj qs = filter (\<lambda>r. r ''id'' \<noteq> obj ''id'') qs"

text \<open>
  The handlers of the model mixins, each in the order of the framework's code.
  Modelled from the spec: the serializer modules are not among the sources; an instance
  is "created via POST through the serializer's validated-data save" and "mutated via
  PATCH/PUT", that is by \<^verbatim>\<open>ModelSerializer.create\<close> and \<^verbatim>\<open>ModelSerializer.update\<close>, on the model
  of the view's queryset. \<^verbatim>\<open>serializer.save(**kwargs)\<close> merges the keyword arguments over
  the validated data (\<^verbatim>\<open>{**validated_data, **kwargs}\<close>); the database assigns the primary
  key of a new row.
\<close>

definition mixin_list ::
  "view_class \<Rightarrow> database \<Rightarrow> account option \<Rightarrow> api_exception + response \<times> database" where
  "mixin_list cls db user =
     (case get_queryset cls db user of
        Inl ex \<Rightarrow> Inl ex
      | Inr qs \<Rightarrow>
          (case get_serializer_class cls (Some A_list) of
             None \<Rightarrow> Inl ServerError
           | Some sc \<Rightarrow> Inr (\<lparr>status = 200, content = Many sc qs\<rparr>, db)))"

definition mixin_create ::
  "env \<Rightarrow> view_class \<Rightarrow> database \<Rightarrow> request \<Rightarrow> account option
     \<Rightarrow> api_exception + response \<times> database" where
  "mixin_create e cls db req user =
     (case (get_serializer_class cls (Some A_create), map_of (body cls) ''queryset'') of
        (Some sc, Some (Objects m)) \<Rightarrow>
          (case is_valid e sc False (data req) of
             None \<Rightarrow> Inl ValidationError
           | Some validated_data \<Rightarrow>
               (case perform_create cls user of
                  Inl ex \<Rightarrow> Inl ex
                | Inr kwargs \<Rightarrow>
                    (let obj = (validated_data ++ kwargs)
                                 (''id'' \<mapsto> Num (max_id (objects_all m db) + 1))
                     in Inr (\<lparr>status = 201, content = One sc obj\<rparr>,
                             write_table m (objects_all m db @ [obj]) db))))
      | _ \<Rightarrow> Inl ServerError)"

definition mixin_retrieve ::
  "view_class \<Rightarrow> database \<Rightarrow> account option \<Rightarrow> int \<Rightarrow> api_exception + response \<times> database" where
  "mixin_retrieve cls db user pk =
     (case get_object cls db user pk of
        Inl ex \<Rightarrow> Inl ex
      | Inr obj \<Rightarrow>
          (case get_serializer_class cls (Some A_retrieve) of
             None \<Rightarrow> Inl ServerError
           | Some sc \<Rightarrow> Inr (\<lparr>status = 200, content = One sc obj\<rparr>, db)))"

definition mixin_update ::
  "env \<Rightarrow> view_class \<Rightarrow> database \<Rightarrow> request \<Rightarrow> account option \<Rightarrow> int \<Rightarrow> bool
     \<Rightarrow> api_exception + response \<times> database" where
  \<comment> \<open>\<^verbatim>\<open>update\<close>, and \<^verbatim>\<open>partial_update\<close> when \<open>partial\<close> is set\<close>
  "mixin_update e cls db req user pk partial =
     (case get_object cls db user pk of
        Inl ex \<Rightarrow> Inl ex
      | Inr obj \<Rightarrow>
          (case (get_serializer_class cls (Some (if partial then A_partial_update else A_update)),
                 map_of (body cls) ''queryset'') of
             (Some sc, Some (Objects m)) \<Rightarrow>
               (case is_valid e sc partial (data req) of
                  None \<Rightarrow> Inl ValidationError
                | Some validated_data \<Rightarrow>
                    (let obj' = obj ++ validated_data
                     in Inr (\<lparr>status = 200, content = One sc obj'\<rparr>,
                             write_table m (save_row obj' (objects_all m db)) db)))
           | _ \<Rightarrow> Inl ServerError))"

definition mixin_destroy ::
  "view_class \<Rightarrow> database \<Rightarrow> account option \<Rightarrow> int \<Rightarrow> api_exception + response \<times> database" where
  "mixin_destroy cls db user pk =
     (case get_object cls db user pk of
        Inl ex \<Rightarrow> Inl ex
      | Inr obj \<Rightarrow>
          (case map_of (body cls) ''queryset'' of
             Some (Objects m) \<Rightarrow>
               Inr (\<lparr>status = 204, content = NoContent\<rparr>,
                    write_table m (delete_row obj (objects_all m db)) db)
           | _ \<Rightarrow> Inl ServerError))"

fun run_action ::
  "env \<Rightarrow> view_class \<Rightarrow> route \<Rightarrow> database \<Rightarrow> request \<Rightarrow> account option \<Rightarrow> action
     \<Rightarrow> api_exception + response \<times> database" where
  \<comment> \<open>the handler of an action, with the primary key of the URL for the detail actions\<close>
  "run_action e cls rt db req user A_list = mixin_list cls db user"
| "run_action e cls rt db req user A_create = mixin_create e cls db req user"
| "run_action e cls (DetailRoute pk) db req user A_retrieve = mixin_retrieve cls db user pk"
| "run_action e cls (DetailRoute pk) db req user A_update = mixin_update e cls db req user pk False"
| "run_action e cls (DetailRoute pk) db req user A_partial_update =
     mixin_update e cls db req user pk True"
| "run_action e cls (DetailRoute pk) db req user A_destroy = mixin_destroy cls db user pk"
| "run_action e cls ListRoute db req user act = Inl ServerError"

definition error_response :: "env \<Rightarrow> view_class \<Rightarrow> api_exception \<Rightarrow> response" where
  "error_response e cls ex =
     \<lparr>status = status_code (get_authenticators e cls) ex, content = Detail ex\<rparr>"

definition dispatch :: "env \<Rightarrow> view_class \<Rightarrow> route \<Rightarrow> database \<Rightarrow> request \<Rightarrow> response \<times> database" where
  \<comment> \<open>a request to a route of a registered viewset: \<^verbatim>\<open>APIView.dispatch\<close> runs
      \<^verbatim>\<open>initial\<close> first and only then looks for the handler of the method; a route none
      of whose actions the viewset has is not registered at all\<close>
  "dispatch e cls rt db req =
     (if get_method_map cls rt = [] then (\<lparr>status = 404, content = Detail Http404\<rparr>, db)
      else
        (case initial e cls db req of
           Inl ex \<Rightarrow> (error_response e cls ex, db)
         | Inr user \<Rightarrow>
             if http_method req = OPTIONS then (\<lparr>status = 200, content = Metadata\<rparr>, db)
             else
               (case action_map cls rt (http_method req) of
                  None \<Rightarrow> (error_response e cls MethodNotAllowed, db)
                | Some act \<Rightarrow>
                    (case run_action e cls rt db req user act of
                       Inl ex \<Rightarrow> (error_response e cls ex, db)
                     | Inr result \<Rightarrow> result))))"

definition save_account :: "account \<Rightarrow> account list \<Rightarrow> account list" where
  "save_account obj as = map (\<lambda>a. if uid a = uid obj then obj else a) as"

definition dispatch_user_view :: "env \<Rightarrow> view_class \<Rightarrow> database \<Rightarrow> request \<Rightarrow> response \<times> database" where
  \<comment> \<open>a request to a \<^verbatim>\<open>generics.RetrieveUpdateAPIView\<close> over the user model: \<^verbatim>\<open>get\<close>
      retrieves, \<^verbatim>\<open>put\<close> and \<^verbatim>\<open>patch\<close> update, each on the result of \<^verbatim>\<open>get_object\<close>. The
      serializer assigns the validated fields to the object and saves it; the primary
      key and \<^verbatim>\<open>is_active\<close> are not among its fields.\<close>
  "dispatch_user_view e cls db req =
     (case initial e cls db req of
        Inl ex \<Rightarrow> (error_response e cls ex, db)
      | Inr user \<Rightarrow>
          if http_method req = OPTIONS then (\<lparr>status = 200, content = Metadata\<rparr>, db)
          else if http_method req \<notin> set [GET, HEAD, PUT, PATCH]
            then (error_response e cls MethodNotAllowed, db)
          else
            (case (map_of (body cls) ''get_object'', user, get_serializer_class cls None) of
               (Some (ObjectMethod f), Some u, Some sc) \<Rightarrow>
                 (let obj = f u in
                  if http_method req \<in> set [GET, HEAD]
                    then (\<lparr>status = 200, content = Account sc obj\<rparr>, db)
                  else
                    (case is_valid e sc (http_method req = PATCH) (data req) of
                       None \<Rightarrow> (error_response e cls ValidationError, db)
                     | Some validated_data \<Rightarrow>
                         (let obj' = obj\<lparr>profile := profile obj ++ validated_data\<rparr>
                          in (\<lparr>status = 200, content = Account sc obj'\<rparr>,
                              db\<lparr>accounts := save_account obj' (accounts db)\<rparr>))))
             | _ \<Rightarrow> (error_response e cls ServerError, db)))"

text \<open>
  The settings of the framework itself, which hold wherever the project's settings module
  does not override them.
\<close>

definition framework_defaults :: "env \<Rightarrow> bool" where
  "framework_defaults e \<longleftrightarrow>
     default_authentication_classes e = [SessionAuthentication, BasicAuthentication]
     \<and> default_permission_classes e = [AllowAny]"

section \<open>The calculator\<close>

definition add :: "int \<Rightarrow> int \<Rightarrow> int" where
  \<comment> \<open>Modelled from the spec: \<^verbatim>\<open>app/calc.py\<close> is not among the sources; only its test
      \<^verbatim>\<open>CalcTests.test_add_number\<close> is. \<^verbatim>\<open>calc.add\<close> adds its two arguments.\<close>
  "add x y = x + y"

section \<open>Example data\<close>

text \<open>
  Two users with one token each, the rows of the test module
  \<^verbatim>\<open>recipe/tests/test_ingredient_api.py\<close> and a few more, and an environment with the
  framework's own settings whose serializers accept every body as it is.
\<close>

definition alice :: account where
  "alice = \<lparr>uid = 1, is_active = True, profile = [''email'' \<mapsto> Str ''user@example.com'']\<rparr>"

definition bob :: account where
  "bob = \<lparr>uid = 2, is_active = True, profile = [''email'' \<mapsto> Str ''user2@example.com'']\<rparr>"

definition salt :: row where
  "salt = [''id'' \<mapsto> Num 1, ''user'' \<mapsto> Num 1, ''name'' \<mapsto> Str ''Salt'']"

definition onion :: row where
  "onion = [''id'' \<mapsto> Num 2, ''user'' \<mapsto> Num 1, ''name'' \<mapsto> Str ''Onion'']"

definition pepper :: row where
  "pepper = [''id'' \<mapsto> Num 3, ''user'' \<mapsto> Num 1, ''name'' \<mapsto> Str ''Pepper'']"

definition other_ingredient :: row where
  "other_ingredient = [''id'' \<mapsto> Num 4, ''user'' \<mapsto> Num 2, ''name'' \<mapsto> Str ''other ingredient'']"

definition kale :: row where
  "kale = [''id'' \<mapsto> Num 5, ''user'' \<mapsto> Num 1, ''name'' \<mapsto> Str ''Kale'']"

definition vegan :: row where
  "vegan = [''id'' \<mapsto> Num 1, ''user'' \<mapsto> Num 1, ''name'' \<mapsto> Str ''Vegan'']"

definition dessert :: row where
  "dessert = [''id'' \<mapsto> Num 2, ''user'' \<mapsto> Num 2, ''name'' \<mapsto> Str ''Dessert'']"

definition soup :: row where
  "soup = [''id'' \<mapsto> Num 1, ''user'' \<mapsto> Num 1, ''title'' \<mapsto> Str ''Soup'']"

definition cake :: row where
  "cake = [''id'' \<mapsto> Num 2, ''user'' \<mapsto> Num 2, ''title'' \<mapsto> Str ''Cake'']"

definition example_db :: database where
  "example_db =
     \<lparr>accounts = [alice, bob],
      tokens = [''token-alice'' \<mapsto> 1, ''token-bob'' \<mapsto> 2],
      recipes = [soup, cake],
      tags = [vegan, dessert],
      ingredients = [salt, onion, pepper, other_ingredient]\<rparr>"

definition example_env :: env where
  "example_env =
     \<lparr>default_authentication_classes = [SessionAuthentication, BasicAuthentication],
      default_permission_classes = [AllowAny],
      check_credentials = (\<lambda>db credentials. None),
      is_valid = (\<lambda>cls partial d. Some d)\<rparr>"

definition token_request :: "http_method \<Rightarrow> string \<Rightarrow> dict \<Rightarrow> request" where
  "token_request m key d =
     \<lparr>http_method = m, authorization = TokenHeader [key], session_user = None,
      csrf_ok = False, data = d\<rparr>"

definition session_request :: "http_method \<Rightarrow> int \<Rightarrow> dict \<Rightarrow> request" where
  "session_request m u d =
     \<lparr>http_method = m, authorization = NoHeader, session_user = Some u,
      csrf_ok = True, data = d\<rparr>"

definition anonymous_request :: "http_method \<Rightarrow> request" where
  "anonymous_request m =
     \<lparr>http_method = m, authorization = NoHeader, session_user = None,
      csrf_ok = False, data = Map.empty\<rparr>"

section \<open>Properties of querysets\<close>

lemma order_by_desc_sorted:
  "sorted_wrt (\<lambda>a b. b field \<le> a field) (order_by (CHR ''-'' # field) qs)"
proof -
  have "sorted (map (\<lambda>r. r field) (sort_key (\<lambda>r. r field) qs))"
    by (rule sorted_sort_key)
  then have "sorted_wrt (\<lambda>a b. a field \<le> b field) (sort_key (\<lambda>r. r field) qs)"
    by (simp add: sorted_map)
  then have "sorted_wrt (\<lambda>a b. b field \<le> a field) (rev (sort_key (\<lambda>r. r field) qs))"
    by (simp add: sorted_wrt_rev)
  then show ?thesis
    by (simp add: order_by_def)
qed

lemma set_order_by: "set (order_by spec qs) = set qs"
  by (cases spec) (simp_all add: order_by_def)

lemma set_filter_eq: "set (filter_eq field v qs) = {r \<in> set qs. r field = Some v}"
  by (simp add: filter_eq_def)

lemma mset_order_by: "mset (order_by spec qs) = mset qs"
  by (cases spec) (simp_all add: order_by_def)

lemma scoped_list_owned:
  "\<forall>r \<in> set (order_by spec (filter_eq ''user'' v qs)). r ''user'' = Some v"
  by (simp add: set_order_by set_filter_eq)

lemma scoped_list_complete:
  "mset (order_by spec (filter_eq ''user'' v qs)) = filter_mset (\<lambda>r. r ''user'' = Some v) (mset qs)"
  by (simp add: mset_order_by filter_eq_def)

lemma find_none_in_scoped:
  assumes "distinct (map (\<lambda>r. r ''id'') qs)"
    and "r \<in> set qs" and "r ''id'' = Some (Num pk)" and "r ''user'' \<noteq> Some v"
  shows "find (\<lambda>r. r ''id'' = Some (Num pk)) (order_by spec (filter_eq ''user'' v qs)) = None"
proof -
  have "\<And>x. x \<in> set qs \<Longrightarrow> x ''id'' = Some (Num pk) \<Longrightarrow> x = r"
    using assms(1,2,3) by (metis distinct_map inj_onD)
  then have "\<not> (\<exists>x \<in> set (order_by spec (filter_eq ''user'' v qs)). x ''id'' = Some (Num pk))"
    using assms(4) by (auto simp: set_order_by set_filter_eq)
  then show ?thesis
    by (simp add: find_None_iff)
qed

section \<open>What the framework finds in each view class\<close>

lemmas fixtures =
  alice_def bob_def salt_def onion_def pepper_def other_ingredient_def vegan_def
  dessert_def soup_def cake_def example_db_def example_env_def token_request_def

lemma authenticators_of_views:
  "get_authenticators e RecipeViewSet = [TokenAuthentication]"
  "get_authenticators e IngredientViewSet = [TokenAuthentication]"
  "get_authenticators e ManageUserView = [TokenAuthentication]"
  "get_authenticators e TagViewSet = default_authentication_classes e"
  by (simp_all add: get_authenticators_def RecipeViewSet_def IngredientViewSet_def
        ManageUserView_def TagViewSet_def)

lemma permissions_of_views:
  "get_permissions e RecipeViewSet = [IsAuthenticated]"
  "get_permissions e TagViewSet = [IsAuthenticated]"
  "get_permissions e IngredientViewSet = [IsAuthenticated]"
  "get_permissions e ManageUserView = [IsAuthenticated]"
  by (simp_all add: get_permissions_def RecipeViewSet_def IngredientViewSet_def
        ManageUserView_def TagViewSet_def)

lemma querysets_of_views:
  "get_queryset RecipeViewSet db (Some u) =
     Inr (order_by ''-id'' (filter_eq ''user'' (Num (uid u)) (recipes db)))"
  "get_queryset TagViewSet db (Some u) =
     Inr (order_by ''-name'' (filter_eq ''user'' (Num (uid u)) (tags db)))"
  "get_queryset IngredientViewSet db user = Inr (ingredients db)"
  by (simp_all add: get_queryset_def RecipeViewSet_def IngredientViewSet_def TagViewSet_def)

lemma method_maps_of_views:
  "get_method_map RecipeViewSet rt = route_mapping rt"
  "get_method_map TagViewSet ListRoute = [(GET, A_list)]"
  "get_method_map TagViewSet (DetailRoute pk) =
     [(PUT, A_update), (PATCH, A_partial_update), (DELETE, A_destroy)]"
  "get_method_map IngredientViewSet ListRoute = [(GET, A_list)]"
  "get_method_map IngredientViewSet (DetailRoute pk) =
     [(PUT, A_update), (PATCH, A_partial_update), (DELETE, A_destroy)]"
  by (cases rt; simp add: get_method_map_def has_action_def RecipeViewSet_def)
     (simp_all add: get_method_map_def has_action_def IngredientViewSet_def TagViewSet_def)

lemma serializers_of_views:
  "get_serializer_class RecipeViewSet act =
     (if act = Some A_list then Some RecipeSerializer
      else if act \<in> {Some A_retrieve, Some A_update, Some A_partial_update}
        then Some RecipeDetailSerializer
      else Some RecipeSerializer)"
  "get_serializer_class TagViewSet act = Some TagSerializer"
  "get_serializer_class IngredientViewSet act = Some IngredientSerializer"
  "get_serializer_class ManageUserView act = Some UserSerializer"
  by (simp_all add: get_serializer_class_def RecipeViewSet_def IngredientViewSet_def
        ManageUserView_def TagViewSet_def)

lemma models_of_views:
  "map_of (body RecipeViewSet) ''queryset'' = Some (Objects Recipe)"
  "map_of (body TagViewSet) ''queryset'' = Some (Objects Tag)"
  "map_of (body IngredientViewSet) ''queryset'' = Some (Objects Ingredient)"
  by (simp_all add: RecipeViewSet_def IngredientViewSet_def TagViewSet_def)

lemma perform_create_recipe:
  "perform_create RecipeViewSet (Some u) = Inr [''user'' \<mapsto> Num (uid u)]"
  by (simp add: perform_create_def RecipeViewSet_def)

lemmas handlers =
  mixin_list_def mixin_create_def mixin_retrieve_def mixin_update_def mixin_destroy_def

lemmas view_facts =
  authenticators_of_views permissions_of_views method_maps_of_views models_of_views
  serializers_of_views querysets_of_views

section \<open>Authentication\<close>

lemma initial_authenticated_only:
  assumes "get_permissions e cls = [IsAuthenticated]"
  shows "initial e cls db req =
     (case perform_authentication e db req (get_authenticators e cls) of
        Inl ex \<Rightarrow> Inl ex
      | Inr None \<Rightarrow> if get_authenticators e cls \<noteq> [] then Inl NotAuthenticated else Inl PermissionDenied
      | Inr (Some u) \<Rightarrow> Inr (Some u))"
  using assms by (simp add: initial_def split: sum.splits option.splits)

lemma no_credentials_anonymous:
  assumes "authorization req = NoHeader" and "session_user req = None"
  shows "perform_authentication e db req as = Inr None"
proof (induction as)
  case Nil
  show ?case by simp
next
  case (Cons a as)
  have "authenticate e db req a = Inr None"
    using assms by (cases a) simp_all
  with Cons show ?case by simp
qed

lemma token_initial:
  assumes "get_authenticators e cls = [TokenAuthentication]"
    and "get_permissions e cls = [IsAuthenticated]"
  shows "initial e cls db req =
     (case authenticate e db req TokenAuthentication of
        Inl ex \<Rightarrow> Inl ex
      | Inr None \<Rightarrow> Inl NotAuthenticated
      | Inr (Some u) \<Rightarrow> Inr (Some u))"
  using assms by (simp add: initial_authenticated_only split: sum.splits option.splits)

lemma token_authenticates:
  assumes "authorization req = TokenHeader [key]" and "tokens db key = Some i"
    and "get_user db i = Some a" and "is_active a"
  shows "initial e RecipeViewSet db req = Inr (Some a)"
    and "initial e IngredientViewSet db req = Inr (Some a)"
    and "initial e ManageUserView db req = Inr (Some a)"
  using assms by (simp_all add: token_initial view_facts)

lemma no_credentials_unauthorized:
  assumes "authorization req = NoHeader"
  shows "dispatch e RecipeViewSet rt db req = (\<lparr>status = 401, content = Detail NotAuthenticated\<rparr>, db)"
    and "dispatch e IngredientViewSet rt db req = (\<lparr>status = 401, content = Detail NotAuthenticated\<rparr>, db)"
    and "dispatch_user_view e ManageUserView db req
           = (\<lparr>status = 401, content = Detail NotAuthenticated\<rparr>, db)"
  using assms
  by (cases rt; simp add: dispatch_def dispatch_user_view_def token_initial view_facts
        error_response_def status_code_def get_authenticate_header_def)+

lemma tags_no_credentials:
  assumes "authorization req = NoHeader" and "session_user req = None"
  shows "fst (dispatch e TagViewSet rt db req) =
     \<lparr>status = (if get_authenticate_header (default_authentication_classes e) \<noteq> None then 401 else 403),
      content = Detail (if default_authentication_classes e = [] then PermissionDenied else NotAuthenticated)\<rparr>"
  using assms
  by (cases rt; simp add: dispatch_def initial_authenticated_only view_facts no_credentials_anonymous
        error_response_def status_code_def get_authenticate_header_def)

section \<open>List responses\<close>

lemma recipe_list:
  assumes "initial e RecipeViewSet db req = Inr (Some u)" and "http_method req \<in> {GET, HEAD}"
  shows "dispatch e RecipeViewSet ListRoute db req =
     (\<lparr>status = 200, content = Many RecipeSerializer
         (order_by ''-id'' (filter_eq ''user'' (Num (uid u)) (recipes db)))\<rparr>, db)"
  using assms by (auto simp add: dispatch_def view_facts action_map_def handlers)

lemma tag_list:
  assumes "initial e TagViewSet db req = Inr (Some u)" and "http_method req \<in> {GET, HEAD}"
  shows "dispatch e TagViewSet ListRoute db req =
     (\<lparr>status = 200, content = Many TagSerializer
         (order_by ''-name'' (filter_eq ''user'' (Num (uid u)) (tags db)))\<rparr>, db)"
  using assms by (auto simp add: dispatch_def view_facts action_map_def handlers)

section \<open>The claims\<close>

text \<open>
  C1. Every list response holds only rows owned by the requester. The recipe and tag
  viewsets filter their queryset on the requester (lemmas \<open>recipe_list\<close>, \<open>tag_list\<close> and
  \<open>scoped_list_owned\<close>). The ingredient viewset names its filter \<^verbatim>\<open>get_query\<close>, a method
  the framework never calls, so its list is the whole table: Alice, authenticated by her
  token, is shown the ingredient that Bob owns.
\<close>

theorem ingredient_list_shows_other_users:
  "initial example_env IngredientViewSet example_db (token_request GET ''token-alice'' Map.empty)
     = Inr (Some alice)
   \<and> dispatch example_env IngredientViewSet ListRoute example_db
        (token_request GET ''token-alice'' Map.empty)
     = (\<lparr>status = 200, content = Many IngredientSerializer [salt, onion, pepper, other_ingredient]\<rparr>,
        example_db)
   \<and> other_ingredient ''user'' = Some (Num (uid bob))
   \<and> uid bob \<noteq> uid alice"
  by (simp add: dispatch_def token_initial authenticators_of_views permissions_of_views
        method_maps_of_views action_map_def handlers models_of_views serializers_of_views
        querysets_of_views get_user_def fixtures)

text \<open>
  C2. A request without credentials is answered 401. This holds for the recipe and
  ingredient viewsets and for the user view (lemma \<open>no_credentials_unauthorized\<close>). The
  tag viewset assigns \<^verbatim>\<open>authentication_class\<close>, not \<^verbatim>\<open>authentication_classes\<close>, so it
  authenticates with the default classes of the settings (lemma \<open>tags_no_credentials\<close>);
  under the framework's own defaults, session authentication comes first, supplies no
  \<^verbatim>\<open>WWW-Authenticate\<close> header, and the anonymous request to the tag list is answered 403.
\<close>

theorem tags_anonymous_forbidden:
  "framework_defaults example_env
   \<and> dispatch example_env TagViewSet ListRoute example_db (anonymous_request GET)
     = (\<lparr>status = 403, content = Detail NotAuthenticated\<rparr>, example_db)"
  by (simp add: framework_defaults_def dispatch_def initial_authenticated_only view_facts
        error_response_def status_code_def get_authenticate_header_def fixtures anonymous_request_def)

text \<open>
  C5. A request bearing a valid token is authenticated as the token's user. This holds
  for the recipe and ingredient viewsets and for the user view (lemma
  \<open>token_authenticates\<close>). At the tag viewset, under the framework's own defaults, no
  authenticator reads the token: the request that the recipe viewset accepts as Alice
  stays anonymous and is answered 403.
\<close>

theorem tags_token_ignored:
  "framework_defaults example_env
   \<and> tokens example_db ''token-alice'' = Some (uid alice)
   \<and> initial example_env RecipeViewSet example_db (token_request GET ''token-alice'' Map.empty)
       = Inr (Some alice)
   \<and> initial example_env TagViewSet example_db (token_request GET ''token-alice'' Map.empty)
       = Inl NotAuthenticated
   \<and> dispatch example_env TagViewSet ListRoute example_db (token_request GET ''token-alice'' Map.empty)
       = (\<lparr>status = 403, content = Detail NotAuthenticated\<rparr>, example_db)"
  by (simp add: framework_defaults_def dispatch_def initial_authenticated_only token_initial view_facts
        error_response_def status_code_def get_authenticate_header_def get_user_def fixtures)

text \<open>
  C7. Every list response is ordered by one column: recipes by id, tags and ingredients
  by name, descending, and is otherwise the owner's rows (lemmas \<open>recipe_list\<close>,
  \<open>tag_list\<close>, \<open>order_by_desc_sorted\<close> and \<open>scoped_list_complete\<close>). The ingredient list
  is not ordered at all: the \<^verbatim>\<open>order_by("-name")\<close> sits in the uncalled \<^verbatim>\<open>get_query\<close>,
  and the response keeps the order of the table, here neither descending nor ascending
  by name.
\<close>

theorem ingredient_list_unordered:
  "content (fst (dispatch example_env IngredientViewSet ListRoute example_db
        (token_request GET ''token-alice'' Map.empty)))
     = Many IngredientSerializer [salt, onion, pepper, other_ingredient]
   \<and> \<not> sorted_wrt (\<lambda>a b. b ''name'' \<le> a ''name'') [salt, onion, pepper, other_ingredient]
   \<and> \<not> sorted_wrt (\<lambda>a b. a ''name'' \<le> b ''name'') [salt, onion, pepper, other_ingredient]"
  by (simp add: dispatch_def token_initial view_facts action_map_def handlers
        get_user_def fixtures less_eq_char_def)

text \<open>
  C3, as stated: an authenticated POST of \<^verbatim>\<open>{name: "Kale"}\<close> to the ingredient list
  succeeds. It does not: the ingredient viewset has no create action, so the route binds
  no handler to POST; Alice's request is answered 405 and stores nothing.
\<close>

theorem ingredient_post_counterexample:
  "initial example_env IngredientViewSet example_db
       (token_request POST ''token-alice'' [''name'' \<mapsto> Str ''Kale'']) = Inr (Some alice)
   \<and> dispatch example_env IngredientViewSet ListRoute example_db
       (token_request POST ''token-alice'' [''name'' \<mapsto> Str ''Kale''])
     = (\<lparr>status = 405, content = Detail MethodNotAllowed\<rparr>, example_db)"
  by (simp add: dispatch_def token_initial view_facts action_map_def error_response_def
        status_code_def get_user_def fixtures)

text \<open>
  C3, amended: for an authenticated user, a POST to the ingredient list is answered 405
  and leaves the database as it was; an ingredient named Kale that is stored for the user
  is in the user's GET list response.
\<close>

theorem ingredient_post_not_allowed_stored_listed:
  assumes "initial e IngredientViewSet db req = Inr (Some u)"
  shows "(http_method req = POST \<longrightarrow>
            dispatch e IngredientViewSet ListRoute db req
              = (\<lparr>status = 405, content = Detail MethodNotAllowed\<rparr>, db))
       \<and> (http_method req = GET \<and> r \<in> set (ingredients db)
            \<and> r ''user'' = Some (Num (uid u)) \<and> r ''name'' = Some (Str ''Kale'') \<longrightarrow>
            (\<exists>rows. dispatch e IngredientViewSet ListRoute db req
                      = (\<lparr>status = 200, content = Many IngredientSerializer rows\<rparr>, db)
                    \<and> r \<in> set rows))"
  using assms
  by (simp add: dispatch_def view_facts action_map_def handlers error_response_def
        status_code_def)

theorem ingredient_post_not_allowed_stored_listed_witness:
  "dispatch example_env IngredientViewSet ListRoute (example_db\<lparr>ingredients := [salt, kale]\<rparr>)
       (token_request POST ''token-alice'' [''name'' \<mapsto> Str ''Kale''])
     = (\<lparr>status = 405, content = Detail MethodNotAllowed\<rparr>, example_db\<lparr>ingredients := [salt, kale]\<rparr>)
   \<and> (\<exists>rows. dispatch example_env IngredientViewSet ListRoute (example_db\<lparr>ingredients := [salt, kale]\<rparr>)
                  (token_request GET ''token-alice'' Map.empty)
               = (\<lparr>status = 200, content = Many IngredientSerializer rows\<rparr>,
                  example_db\<lparr>ingredients := [salt, kale]\<rparr>)
             \<and> kale \<in> set rows)"
proof -
  let ?db = "example_db\<lparr>ingredients := [salt, kale]\<rparr>"
  have post: "initial example_env IngredientViewSet ?db
      (token_request POST ''token-alice'' [''name'' \<mapsto> Str ''Kale'']) = Inr (Some alice)"
    by (simp add: token_initial view_facts get_user_def fixtures)
  have get: "initial example_env IngredientViewSet ?db
      (token_request GET ''token-alice'' Map.empty) = Inr (Some alice)"
    by (simp add: token_initial view_facts get_user_def fixtures)
  have m: "http_method (token_request POST ''token-alice'' [''name'' \<mapsto> Str ''Kale'']) = POST"
    "http_method (token_request GET ''token-alice'' Map.empty) = GET"
    by (simp_all add: token_request_def)
  have k: "kale \<in> set (ingredients ?db)" "kale ''user'' = Some (Num (uid alice))"
    "kale ''name'' = Some (Str ''Kale'')"
    by (simp_all add: kale_def alice_def)
  show ?thesis
    using ingredient_post_not_allowed_stored_listed [OF post, of kale]
      ingredient_post_not_allowed_stored_listed [OF get, of kale] m k
    by simp
qed

text \<open>
  C8. \<^verbatim>\<open>calc.add(5, 6)\<close> is 11.
\<close>

theorem calc_add_5_6: "add 5 6 = 11"
  by (simp add: add_def)

text \<open>
  C6. The recipe viewset chooses its serializer by action: the plain recipe serializer
  for \<^verbatim>\<open>list\<close>, the detail serializer for \<^verbatim>\<open>retrieve\<close>, \<^verbatim>\<open>update\<close> and \<^verbatim>\<open>partial_update\<close>;
  so an authenticated GET of the list is rendered with the plain serializer and an
  authenticated GET of one of the requester's recipes with the detail serializer.
\<close>

theorem recipe_serializer_by_action:
  "get_serializer_class RecipeViewSet (Some A_list) = Some RecipeSerializer
   \<and> get_serializer_class RecipeViewSet (Some A_retrieve) = Some RecipeDetailSerializer
   \<and> get_serializer_class RecipeViewSet (Some A_update) = Some RecipeDetailSerializer
   \<and> get_serializer_class RecipeViewSet (Some A_partial_update) = Some RecipeDetailSerializer
   \<and> (initial e RecipeViewSet db req = Inr (Some u) \<and> http_method req = GET \<longrightarrow>
        (\<exists>rows. fst (dispatch e RecipeViewSet ListRoute db req)
                  = \<lparr>status = 200, content = Many RecipeSerializer rows\<rparr>)
        \<and> (\<forall>obj. get_object RecipeViewSet db (Some u) pk = Inr obj \<longrightarrow>
              fst (dispatch e RecipeViewSet (DetailRoute pk) db req)
                = \<lparr>status = 200, content = One RecipeDetailSerializer obj\<rparr>))"
  by (auto simp add: dispatch_def view_facts action_map_def handlers)

theorem recipe_serializer_by_action_witness:
  "(\<exists>rows. fst (dispatch example_env RecipeViewSet ListRoute example_db
                    (token_request GET ''token-alice'' Map.empty))
              = \<lparr>status = 200, content = Many RecipeSerializer rows\<rparr>)
   \<and> fst (dispatch example_env RecipeViewSet (DetailRoute 1) example_db
             (token_request GET ''token-alice'' Map.empty))
       = \<lparr>status = 200, content = One RecipeDetailSerializer soup\<rparr>"
proof -
  let ?req = "token_request GET ''token-alice'' Map.empty"
  have auth: "initial example_env RecipeViewSet example_db ?req = Inr (Some alice)"
    by (simp add: token_initial view_facts get_user_def fixtures)
  have m: "http_method ?req = GET"
    by (simp add: token_request_def)
  have obj: "get_object RecipeViewSet example_db (Some alice) 1 = Inr soup"
    by (simp add: get_object_def view_facts order_by_def filter_eq_def fixtures)
  show ?thesis
    using recipe_serializer_by_action [of example_env example_db ?req alice 1] auth m obj
    by simp
qed

lemma foreign_object_not_found:
  assumes "distinct (map (\<lambda>r. r ''id'') (objects_all m db))"
    and "r \<in> set (objects_all m db)" and "r ''id'' = Some (Num pk)"
    and "r ''user'' \<noteq> Some (Num (uid u))"
  shows "m = Recipe \<Longrightarrow> get_object RecipeViewSet db (Some u) pk = Inl Http404"
    and "m = Tag \<Longrightarrow> get_object TagViewSet db (Some u) pk = Inl Http404"
  using assms by (simp_all add: get_object_def view_facts find_none_in_scoped)

lemma ingredient_destroy_by_other_user:
  "dispatch example_env IngredientViewSet (DetailRoute 4) example_db
       (token_request DELETE ''token-alice'' Map.empty)
     = (\<lparr>status = 204, content = NoContent\<rparr>, example_db\<lparr>ingredients := [salt, onion, pepper]\<rparr>)"
  by (simp add: dispatch_def token_initial view_facts action_map_def handlers get_object_def
        delete_row_def get_user_def fixtures)

text \<open>
  C4, as stated: a retrieve, update, partial update or delete of a recipe, tag or
  ingredient that another user owns is answered 404. For a tag it is not: the tag viewset
  (like the ingredient viewset) has no retrieve action, so its detail route binds no
  handler to GET; Alice's GET of Bob's tag is answered 405.
\<close>

theorem foreign_retrieve_counterexample:
  "initial example_env TagViewSet example_db (session_request GET 1 Map.empty) = Inr (Some alice)
   \<and> dessert \<in> set (tags example_db) \<and> dessert ''id'' = Some (Num 2)
   \<and> dessert ''user'' = Some (Num (uid bob)) \<and> uid bob \<noteq> uid alice
   \<and> dispatch example_env TagViewSet (DetailRoute 2) example_db (session_request GET 1 Map.empty)
       = (\<lparr>status = 405, content = Detail MethodNotAllowed\<rparr>, example_db)"
  by (simp add: dispatch_def initial_authenticated_only view_facts action_map_def
        error_response_def status_code_def get_user_def fixtures session_request_def)

text \<open>
  C4, amended: for an authenticated user and a recipe or tag that another user owns
  (primary keys being unique), an update, partial update or delete of it is answered
  404 and changes nothing; so is the retrieve of the recipe; a GET on the detail route
  of the tag is answered 405 and changes nothing.
\<close>

theorem foreign_detail_not_found:
  assumes "distinct (map (\<lambda>r. r ''id'') (objects_all m db))"
    and "r \<in> set (objects_all m db)" and "r ''id'' = Some (Num pk)"
    and "r ''user'' \<noteq> Some (Num (uid u))"
  shows "(m = Recipe \<and> initial e RecipeViewSet db req = Inr (Some u)
            \<and> http_method req \<in> {GET, PUT, PATCH, DELETE} \<longrightarrow>
          dispatch e RecipeViewSet (DetailRoute pk) db req
            = (\<lparr>status = 404, content = Detail Http404\<rparr>, db))
       \<and> (m = Tag \<and> initial e TagViewSet db req = Inr (Some u)
            \<and> http_method req \<in> {PUT, PATCH, DELETE} \<longrightarrow>
          dispatch e TagViewSet (DetailRoute pk) db req
            = (\<lparr>status = 404, content = Detail Http404\<rparr>, db))
       \<and> (m = Tag \<and> initial e TagViewSet db req = Inr (Some u) \<and> http_method req = GET \<longrightarrow>
          dispatch e TagViewSet (DetailRoute pk) db req
            = (\<lparr>status = 405, content = Detail MethodNotAllowed\<rparr>, db))"
proof -
  have recipe: "m = Recipe \<Longrightarrow> get_object RecipeViewSet db (Some u) pk = Inl Http404"
    and tag: "m = Tag \<Longrightarrow> get_object TagViewSet db (Some u) pk = Inl Http404"
    using foreign_object_not_found [OF assms] by simp_all
  show ?thesis
    using recipe tag
    by (auto simp add: dispatch_def view_facts action_map_def handlers error_response_def
          status_code_def)
qed

theorem foreign_detail_not_found_witness:
  "dispatch example_env RecipeViewSet (DetailRoute 2) example_db
       (token_request DELETE ''token-alice'' Map.empty)
     = (\<lparr>status = 404, content = Detail Http404\<rparr>, example_db)
   \<and> dispatch example_env TagViewSet (DetailRoute 2) example_db
       (session_request PATCH 1 [''name'' \<mapsto> Str ''Mine''])
     = (\<lparr>status = 404, content = Detail Http404\<rparr>, example_db)"
proof -
  let ?del = "token_request DELETE ''token-alice'' Map.empty"
  let ?patch = "session_request PATCH 1 [''name'' \<mapsto> Str ''Mine'']"
  have auth_r: "initial example_env RecipeViewSet example_db ?del = Inr (Some alice)"
    by (simp add: token_initial view_facts get_user_def fixtures)
  have auth_t: "initial example_env TagViewSet example_db ?patch = Inr (Some alice)"
    by (simp add: initial_authenticated_only view_facts get_user_def fixtures session_request_def)
  have m: "http_method ?del = DELETE" "http_method ?patch = PATCH"
    by (simp_all add: token_request_def session_request_def)
  have r: "distinct (map (\<lambda>r. r ''id'') (objects_all Recipe example_db))"
    "cake \<in> set (objects_all Recipe example_db)" "cake ''id'' = Some (Num 2)"
    "cake ''user'' \<noteq> Some (Num (uid alice))"
    by (simp_all add: fixtures)
  have t: "distinct (map (\<lambda>r. r ''id'') (objects_all Tag example_db))"
    "dessert \<in> set (objects_all Tag example_db)" "dessert ''id'' = Some (Num 2)"
    "dessert ''user'' \<noteq> Some (Num (uid alice))"
    by (simp_all add: fixtures)
  show ?thesis
    using foreign_detail_not_found [OF r, of example_env ?del]
      foreign_detail_not_found [OF t, of example_env ?patch] auth_r auth_t m
    by simp
qed

text \<open>
  C9. An authenticated POST to the recipe list either fails validation, is answered 400
  and stores nothing, or appends one recipe whose owner is the requester, whatever the
  validated data of the body say about \<^verbatim>\<open>user\<close>.
\<close>

theorem recipe_create_owner:
  assumes "initial e RecipeViewSet db req = Inr (Some u)"
    and "http_method req = POST"
  shows "(is_valid e RecipeSerializer False (data req) = None \<longrightarrow>
            dispatch e RecipeViewSet ListRoute db req
              = (\<lparr>status = 400, content = Detail ValidationError\<rparr>, db))
       \<and> (\<forall>validated_data. is_valid e RecipeSerializer False (data req) = Some validated_data \<longrightarrow>
            (\<exists>obj. dispatch e RecipeViewSet ListRoute db req
                     = (\<lparr>status = 201, content = One RecipeSerializer obj\<rparr>,
                        db\<lparr>recipes := recipes db @ [obj]\<rparr>)
                   \<and> obj ''user'' = Some (Num (uid u))))"
  using assms
  by (simp add: dispatch_def view_facts action_map_def handlers perform_create_recipe
        error_response_def status_code_def Let_def)

theorem recipe_create_owner_witness:
  "\<exists>obj. dispatch example_env RecipeViewSet ListRoute example_db
            (token_request POST ''token-alice'' [''title'' \<mapsto> Str ''Stew'', ''user'' \<mapsto> Num 2])
          = (\<lparr>status = 201, content = One RecipeSerializer obj\<rparr>,
             example_db\<lparr>recipes := recipes example_db @ [obj]\<rparr>)
        \<and> obj ''user'' = Some (Num (uid alice))"
proof -
  let ?req = "token_request POST ''token-alice'' [''title'' \<mapsto> Str ''Stew'', ''user'' \<mapsto> Num 2]"
  have auth: "initial example_env RecipeViewSet example_db ?req = Inr (Some alice)"
    by (simp add: token_initial view_facts get_user_def fixtures)
  have m: "http_method ?req = POST"
    by (simp add: token_request_def)
  have v: "is_valid example_env RecipeSerializer False (data ?req) = Some (data ?req)"
    by (simp add: example_env_def)
  show ?thesis
    using recipe_create_owner [OF auth m] v by blast
qed

lemma save_account_others:
  assumes "uid obj = i"
  shows "filter (\<lambda>a. uid a \<noteq> i) (save_account obj as) = filter (\<lambda>a. uid a \<noteq> i) as"
  using assms by (induction as) (simp_all add: save_account_def)

lemma manage_user_dispatch:
  assumes "initial e ManageUserView db req = Inr (Some u)"
  shows "dispatch_user_view e ManageUserView db req =
     (if http_method req = OPTIONS then (\<lparr>status = 200, content = Metadata\<rparr>, db)
      else if http_method req \<notin> {GET, HEAD, PUT, PATCH}
        then (error_response e ManageUserView MethodNotAllowed, db)
      else if http_method req \<in> {GET, HEAD}
        then (\<lparr>status = 200, content = Account UserSerializer u\<rparr>, db)
      else
        (case is_valid e UserSerializer (http_method req = PATCH) (data req) of
           None \<Rightarrow> (error_response e ManageUserView ValidationError, db)
         | Some validated_data \<Rightarrow>
             (\<lparr>status = 200,
               content = Account UserSerializer (u\<lparr>profile := profile u ++ validated_data\<rparr>)\<rparr>,
              db\<lparr>accounts := save_account (u\<lparr>profile := profile u ++ validated_data\<rparr>) (accounts db)\<rparr>)))"
proof -
  have get_obj: "map_of (body ManageUserView) ''get_object'' = Some (ObjectMethod (\<lambda>user. user))"
    by (simp add: ManageUserView_def)
  show ?thesis
    using assms
    by (simp add: dispatch_user_view_def get_obj serializers_of_views Let_def
          split: option.splits)
qed

text \<open>
  C10. For an authenticated request to the user view, the object is the requester: GET
  returns the requester's account; PUT and PATCH with valid data update that account;
  whatever the method, the accounts of all other users and every other table stay as
  they were, and no response shows another user's account.
\<close>

theorem manage_user_own_account:
  assumes "initial e ManageUserView db req = Inr (Some u)"
  shows "(http_method req \<in> {GET, HEAD} \<longrightarrow>
            dispatch_user_view e ManageUserView db req
              = (\<lparr>status = 200, content = Account UserSerializer u\<rparr>, db))
       \<and> (\<forall>validated_data. http_method req \<in> {PUT, PATCH}
            \<and> is_valid e UserSerializer (http_method req = PATCH) (data req) = Some validated_data \<longrightarrow>
            dispatch_user_view e ManageUserView db req
              = (\<lparr>status = 200,
                  content = Account UserSerializer (u\<lparr>profile := profile u ++ validated_data\<rparr>)\<rparr>,
                 db\<lparr>accounts := save_account (u\<lparr>profile := profile u ++ validated_data\<rparr>) (accounts db)\<rparr>))
       \<and> (\<exists>as. snd (dispatch_user_view e ManageUserView db req) = db\<lparr>accounts := as\<rparr>
             \<and> filter (\<lambda>a. uid a \<noteq> uid u) as = filter (\<lambda>a. uid a \<noteq> uid u) (accounts db))
       \<and> (\<forall>sc a. content (fst (dispatch_user_view e ManageUserView db req)) = Account sc a \<longrightarrow>
             uid a = uid u)"
proof (intro conjI)
  note d = manage_user_dispatch [OF assms]
  show "http_method req \<in> {GET, HEAD} \<longrightarrow>
      dispatch_user_view e ManageUserView db req
        = (\<lparr>status = 200, content = Account UserSerializer u\<rparr>, db)"
    by (auto simp add: d)
  show "\<forall>validated_data. http_method req \<in> {PUT, PATCH}
      \<and> is_valid e UserSerializer (http_method req = PATCH) (data req) = Some validated_data \<longrightarrow>
      dispatch_user_view e ManageUserView db req
        = (\<lparr>status = 200,
            content = Account UserSerializer (u\<lparr>profile := profile u ++ validated_data\<rparr>)\<rparr>,
           db\<lparr>accounts := save_account (u\<lparr>profile := profile u ++ validated_data\<rparr>) (accounts db)\<rparr>)"
    by (auto simp add: d)
  show "\<forall>sc a. content (fst (dispatch_user_view e ManageUserView db req)) = Account sc a \<longrightarrow>
      uid a = uid u"
    by (auto simp add: d error_response_def split: option.splits if_splits)
  have same: "snd (dispatch_user_view e ManageUserView db req) = db
      \<or> (\<exists>vd. snd (dispatch_user_view e ManageUserView db req)
            = db\<lparr>accounts := save_account (u\<lparr>profile := profile u ++ vd\<rparr>) (accounts db)\<rparr>)"
    by (cases "is_valid e UserSerializer (http_method req = PATCH) (data req)")
       (auto simp add: d)
  then show "\<exists>as. snd (dispatch_user_view e ManageUserView db req) = db\<lparr>accounts := as\<rparr>
      \<and> filter (\<lambda>a. uid a \<noteq> uid u) as = filter (\<lambda>a. uid a \<noteq> uid u) (accounts db)"
  proof
    assume "snd (dispatch_user_view e ManageUserView db req) = db"
    then have "snd (dispatch_user_view e ManageUserView db req) = db\<lparr>accounts := accounts db\<rparr>"
      by simp
    then show ?thesis by blast
  next
    assume "\<exists>vd. snd (dispatch_user_view e ManageUserView db req)
            = db\<lparr>accounts := save_account (u\<lparr>profile := profile u ++ vd\<rparr>) (accounts db)\<rparr>"
    then obtain vd where "snd (dispatch_user_view e ManageUserView db req)
            = db\<lparr>accounts := save_account (u\<lparr>profile := profile u ++ vd\<rparr>) (accounts db)\<rparr>"
      by blast
    moreover have "filter (\<lambda>a. uid a \<noteq> uid u) (save_account (u\<lparr>profile := profile u ++ vd\<rparr>) (accounts db))
        = filter (\<lambda>a. uid a \<noteq> uid u) (accounts db)"
      by (rule save_account_others) simp
    ultimately show ?thesis by blast
  qed
qed

theorem manage_user_own_account_witness:
  "dispatch_user_view example_env ManageUserView example_db
       (token_request GET ''token-alice'' Map.empty)
     = (\<lparr>status = 200, content = Account UserSerializer alice\<rparr>, example_db)
   \<and> filter (\<lambda>a. uid a \<noteq> uid alice)
        (accounts (snd (dispatch_user_view example_env ManageUserView example_db
           (token_request PATCH ''token-alice'' [''name'' \<mapsto> Str ''Alice'']))))
     = [bob]"
proof -
  let ?get = "token_request GET ''token-alice'' Map.empty"
  let ?patch = "token_request PATCH ''token-alice'' [''name'' \<mapsto> Str ''Alice'']"
  have auth: "initial example_env ManageUserView example_db ?get = Inr (Some alice)"
    "initial example_env ManageUserView example_db ?patch = Inr (Some alice)"
    by (simp_all add: token_initial view_facts get_user_def fixtures)
  have m: "http_method ?get = GET"
    by (simp add: token_request_def)
  have others: "filter (\<lambda>a. uid a \<noteq> uid alice) (accounts example_db) = [bob]"
    by (simp add: fixtures)
  from manage_user_own_account [OF auth(2)]
  obtain as where as: "snd (dispatch_user_view example_env ManageUserView example_db ?patch)
        = example_db\<lparr>accounts := as\<rparr>"
      "filter (\<lambda>a. uid a \<noteq> uid alice) as = filter (\<lambda>a. uid a \<noteq> uid alice) (accounts example_db)"
    by blast
  have "dispatch_user_view example_env ManageUserView example_db ?get
      = (\<lparr>status = 200, content = Account UserSerializer alice\<rparr>, example_db)"
    using manage_user_own_account [OF auth(1)] m by simp
  moreover have "filter (\<lambda>a. uid a \<noteq> uid alice)
        (accounts (snd (dispatch_user_view example_env ManageUserView example_db ?patch))) = [bob]"
    using as others by simp
  ultimately show ?thesis by simp
qed

end
